theory Spec2Isabelle
  imports Complex_Main
begin

section \<open>Python values reaching the watcher\<close>

text \<open>
  The watcher of \<^verbatim>\<open>chain_watcher.py\<close> handles the objects that
  \<^verbatim>\<open>requests.Response.json()\<close> hands back. They are modelled as a datatype of decoded JSON
  values. A float is a rational or one of the three special values Python's decoder accepts;
  an object is the list of the items of the decoded dict (keys distinct, looked up with
  \<open>map_of\<close>).
\<close>

datatype pyfloat = Finite rat | PosInf | NegInf | NaN

datatype jvalue =
    JNull
  | JBool bool
  | JInt int
  | JFloat pyfloat
  | JStr string
  | JArr "jvalue list"
  | JObj "(string \<times> jvalue) list"

text \<open>
  The exceptions of the module (the first four are the classes it declares), the built-in
  exceptions its expressions can raise, and one constructor for each library call that can
  raise: \<^verbatim>\<open>requests.get\<close>, \<^verbatim>\<open>Response.json\<close>,
  \<^verbatim>\<open>WebhookClient.send\<close>.
\<close>

datatype exc =
    UpgradeRequestFailed string
  | PlanNotInRequest
  | BlockNotInRequest
  | BlockRequestFailed string
  | KeyError string
  | TypeError
  | ValueError
  | OverflowError
  | JSONDecodeError
  | RequestException
  | WebhookSendError

text \<open>Truth value of an object, as \<^verbatim>\<open>if not plan\<close> tests it.\<close>

fun truthy :: "jvalue \<Rightarrow> bool" where
  "truthy JNull = False"
| "truthy (JBool b) = b"
| "truthy (JInt n) = (n \<noteq> 0)"
| "truthy (JFloat f) = (f \<noteq> Finite 0)"
| "truthy (JStr s) = (s \<noteq> [])"
| "truthy (JArr xs) = (xs \<noteq> [])"
| "truthy (JObj kvs) = (kvs \<noteq> [])"

text \<open>\<^verbatim>\<open>k in s\<close> for two strings: \<open>k\<close> occurs in \<open>s\<close> as a contiguous run.\<close>

fun str_contains :: "string \<Rightarrow> string \<Rightarrow> bool" where
  "str_contains k [] = (k = [])"
| "str_contains k (c # cs) = (take (length k) (c # cs) = k \<or> str_contains k cs)"

text \<open>
  \<^verbatim>\<open>k in obj\<close> for a string \<open>k\<close>: key membership on a dict, element membership on
  a list, substring test on a string, \<^verbatim>\<open>TypeError\<close> on anything else.
\<close>

fun py_in :: "string \<Rightarrow> jvalue \<Rightarrow> exc + bool" where
  "py_in k (JObj kvs) = Inr (map_of kvs k \<noteq> None)"
| "py_in k (JArr xs) = Inr (List.member xs (JStr k))"
| "py_in k (JStr s) = Inr (str_contains k s)"
| "py_in k JNull = Inl TypeError"
| "py_in k (JBool b) = Inl TypeError"
| "py_in k (JInt n) = Inl TypeError"
| "py_in k (JFloat f) = Inl TypeError"

text \<open>
  \<^verbatim>\<open>obj[k]\<close> for a string \<open>k\<close>: a dict yields the value or \<^verbatim>\<open>KeyError\<close>;
  every other object raises \<^verbatim>\<open>TypeError\<close> (lists and strings want integer
  indices, the rest is not subscriptable).
\<close>

fun py_getitem :: "jvalue \<Rightarrow> string \<Rightarrow> exc + jvalue" where
  "py_getitem (JObj kvs) k = (case map_of kvs k of None \<Rightarrow> Inl (KeyError k) | Some v \<Rightarrow> Inr v)"
| "py_getitem JNull k = Inl TypeError"
| "py_getitem (JBool b) k = Inl TypeError"
| "py_getitem (JInt n) k = Inl TypeError"
| "py_getitem (JFloat f) k = Inl TypeError"
| "py_getitem (JStr s) k = Inl TypeError"
| "py_getitem (JArr xs) k = Inl TypeError"

subsection \<open>The built-in \<^verbatim>\<open>int\<close>\<close>

text \<open>
  \<^verbatim>\<open>int(s)\<close> on a string, base ten: white space around the literal is dropped, one
  sign may lead, and the digits may be grouped by single underscores. Characters are
  bytes here, so only the ASCII digits and ASCII white space are covered; neither the
  non-ASCII decimal digits Python also reads nor the interpreter's limit on the number of
  digits is part of the model.
\<close>

definition is_space :: "char \<Rightarrow> bool" where
  "is_space c = List.member
     [CHR '' '', CHR 0x09, CHR 0x0A, CHR 0x0B, CHR 0x0C, CHR 0x0D,
      CHR 0x1C, CHR 0x1D, CHR 0x1E, CHR 0x1F] c"

definition digit_val :: "char \<Rightarrow> nat option" where
  "digit_val c = map_of
     [(CHR ''0'', 0), (CHR ''1'', 1), (CHR ''2'', 2), (CHR ''3'', 3), (CHR ''4'', 4),
      (CHR ''5'', 5), (CHR ''6'', 6), (CHR ''7'', 7), (CHR ''8'', 8), (CHR ''9'', 9)] c"

text \<open>The digits after the first one, \<open>acc\<close> being the value read so far.\<close>

fun more_digits :: "nat \<Rightarrow> string \<Rightarrow> nat option" where
  "more_digits acc [] = Some acc"
| "more_digits acc [c] =
     (case digit_val c of None \<Rightarrow> None | Some v \<Rightarrow> Some (10 * acc + v))"
| "more_digits acc (c # d # ds) =
     (if c = CHR ''_''
      then (case digit_val d of None \<Rightarrow> None | Some v \<Rightarrow> more_digits (10 * acc + v) ds)
      else (case digit_val c of None \<Rightarrow> None | Some v \<Rightarrow> more_digits (10 * acc + v) (d # ds)))"

definition unsigned_literal :: "string \<Rightarrow> nat option" where
  "unsigned_literal s =
     (case s of [] \<Rightarrow> None
      | c # cs \<Rightarrow> (case digit_val c of None \<Rightarrow> None | Some v \<Rightarrow> more_digits v cs))"

definition strip :: "string \<Rightarrow> string" where
  "strip s = rev (dropWhile is_space (rev (dropWhile is_space s)))"

definition int_of_str :: "string \<Rightarrow> int option" where
  "int_of_str s =
     (case strip s of
        [] \<Rightarrow> None
      | c # cs \<Rightarrow>
          if c = CHR ''-'' then map_option (\<lambda>n. - int n) (unsigned_literal cs)
          else if c = CHR ''+'' then map_option int (unsigned_literal cs)
          else map_option int (unsigned_literal (c # cs)))"

text \<open>
  \<^verbatim>\<open>int(x)\<close> on an object: a string is parsed, an integer is itself, a bool is 0 or 1,
  a finite float is truncated towards zero; an infinite float raises
  \<^verbatim>\<open>OverflowError\<close>, a NaN and an unreadable string \<^verbatim>\<open>ValueError\<close>,
  every other object \<^verbatim>\<open>TypeError\<close>.
\<close>

fun py_int :: "jvalue \<Rightarrow> exc + int" where
  "py_int (JStr s) = (case int_of_str s of None \<Rightarrow> Inl ValueError | Some n \<Rightarrow> Inr n)"
| "py_int (JInt n) = Inr n"
| "py_int (JBool b) = Inr (if b then 1 else 0)"
| "py_int (JFloat (Finite r)) = Inr (if r < 0 then - \<lfloor>- r\<rfloor> else \<lfloor>r\<rfloor>)"
| "py_int (JFloat PosInf) = Inl OverflowError"
| "py_int (JFloat NegInf) = Inl OverflowError"
| "py_int (JFloat NaN) = Inl ValueError"
| "py_int JNull = Inl TypeError"
| "py_int (JArr xs) = Inl TypeError"
| "py_int (JObj kvs) = Inl TypeError"

section \<open>Chain client\<close>

text \<open>
  What \<^verbatim>\<open>requests.get\<close> returns: the status code, the body as text, and the decoded
  body (\<open>None\<close> when the body is not JSON, so that \<^verbatim>\<open>req.json()\<close> raises). The call
  itself may raise instead of returning; the two fetch functions take its outcome, a value
  of \<open>exc + response\<close>, in place of the endpoint.
\<close>

record response =
  status_code :: int
  body_text :: string
  json :: "jvalue option"

text \<open>Lines 23 to 32.\<close>

definition fetch_upgrade_plan :: "exc + response \<Rightarrow> exc + jvalue" where
  "fetch_upgrade_plan got =
     (case got of
        Inl e \<Rightarrow> Inl e
      | Inr req \<Rightarrow>
          if status_code req \<noteq> 200 then Inl (UpgradeRequestFailed (body_text req))
          else (case json req of
                  None \<Rightarrow> Inl JSONDecodeError
                | Some body \<Rightarrow>
                    (case py_in ''plan'' body of
                       Inl e \<Rightarrow> Inl e
                     | Inr present \<Rightarrow>
                         if \<not> present then Inl PlanNotInRequest
                         else py_getitem body ''plan'')))"

text \<open>Lines 34 to 43.\<close>

definition fetch_block_height :: "exc + response \<Rightarrow> exc + int" where
  "fetch_block_height got =
     (case got of
        Inl e \<Rightarrow> Inl e
      | Inr req \<Rightarrow>
          if status_code req \<noteq> 200 then Inl (BlockRequestFailed (body_text req))
          else (case json req of
                  None \<Rightarrow> Inl JSONDecodeError
                | Some body \<Rightarrow>
                    (case py_in ''result'' body of
                       Inl e \<Rightarrow> Inl e
                     | Inr present \<Rightarrow>
                         if \<not> present then Inl BlockNotInRequest
                         else (case py_getitem body ''result'' of
                                 Inl e \<Rightarrow> Inl e
                               | Inr res \<Rightarrow>
                                   (case py_getitem res ''sync_info'' of
                                      Inl e \<Rightarrow> Inl e
                                    | Inr info \<Rightarrow>
                                        (case py_getitem info ''latest_block_height'' of
                                           Inl e \<Rightarrow> Inl e
                                         | Inr h \<Rightarrow> py_int h))))))"

section \<open>Upgrade ledger\<close>

text \<open>
  Modelled from the spec: the schema of the table \<^verbatim>\<open>chains\<close>, which no source file
  creates. The spec keys it by chain id with the columns
  \<^verbatim>\<open>chain_id, upgrade_height, is_reminder_sent\<close> and insert-or-replace writes, at most
  one record per chain id. The table is therefore a map from the chain id to the other two
  columns of its row: \<^verbatim>\<open>existing_upgrade[1]\<close> is the first component,
  \<^verbatim>\<open>existing_upgrade[2]\<close> the second. The connection is taken to be open, so that
  the \<^verbatim>\<open>SELECT\<close> of \<^verbatim>\<open>get_db_upgrade\<close> always answers.
\<close>

type_synonym ledger = "string \<rightharpoonup> int \<times> bool"

text \<open>
  A write either commits or raises \<^verbatim>\<open>sqlite3.OperationalError\<close>, the one failure the
  two update methods handle; a refused write leaves the table as it was.
\<close>

datatype db_result = Db_ok | Db_operational_error

text \<open>Lines 119 to 122.\<close>

definition get_db_upgrade :: "ledger \<Rightarrow> string \<Rightarrow> (int \<times> bool) option" where
  "get_db_upgrade db cid = db cid"

section \<open>The watcher\<close>

text \<open>
  The configuration, already resolved for the watcher's chain:
  \<^verbatim>\<open>config["interval_seconds"]\<close> and the three entries of
  \<^verbatim>\<open>config["chains"][chain_id]\<close>.
\<close>

record config =
  interval_seconds :: nat
  endpoint :: string
  rpc :: string
  reminder_diff_blocks :: int

text \<open>
  Everything the watcher does to the outside is an event, listed in the order of the calls.
  A send event stands for the call of \<^verbatim>\<open>webhook_client.send\<close>; a write event
  carries what the database answered. A log event stands for the call of
  \<^verbatim>\<open>logger.debug\<close> or \<^verbatim>\<open>logger.error\<close> and carries the constant part of
  the message (\<open>Log_debug_blocks n\<close> is the line
  \<^verbatim>\<open>upgrade time in less than n blocks\<close> of line 108); the time written by
  \<^verbatim>\<open>last_checked_time\<close> is not kept.
\<close>

datatype event =
    Sleep nat
  | Log_debug string
  | Log_debug_blocks int
  | Log_error string
  | Error_inc string string
  | Set_last_checked string
  | Fetch_upgrade_plan string
  | Fetch_block_height string
  | Db_select string
  | Db_upsert string int db_result
  | Db_mark_reminder string db_result
  | Send_upgrade_notice string jvalue
  | Send_reminder string jvalue int

datatype send_result = Send_returns | Send_raises

text \<open>
  What the outside answers during one iteration of the loop: the two HTTP calls, the
  webhook call and the database write (an iteration makes at most one of each).
\<close>

record tick_env =
  plan_response :: "exc + response"
  block_response :: "exc + response"
  webhook_send :: send_result
  db_write :: db_result

text \<open>The expression \<^verbatim>\<open>int(plan["height"])\<close> of lines 93, 128 and 170.\<close>

definition plan_height :: "jvalue \<Rightarrow> exc + int" where
  "plan_height plan =
     (case py_getitem plan ''height'' of Inl e \<Rightarrow> Inl e | Inr h \<Rightarrow> py_int h)"

text \<open>
  Lines 124 to 133. The conversion of the height stands inside the \<^verbatim>\<open>try\<close>, whose
  handler takes \<^verbatim>\<open>sqlite3.OperationalError\<close> only: what the conversion raises leaves
  the method.
\<close>

definition update_db_upgrade ::
  "string \<Rightarrow> jvalue \<Rightarrow> db_result \<Rightarrow> ledger \<Rightarrow> exc option \<times> event list \<times> ledger" where
  "update_db_upgrade cid plan wr db =
     (case plan_height plan of
        Inl e \<Rightarrow> (Some e, [], db)
      | Inr h \<Rightarrow>
          (case wr of
             Db_ok \<Rightarrow> (None, [Db_upsert cid h Db_ok], db(cid \<mapsto> (h, False)))
           | Db_operational_error \<Rightarrow>
               (None,
                [Db_upsert cid h Db_operational_error,
                 Log_error ''failed to update database with new upgrade'',
                 Error_inc cid ''database_update_failed''],
                db)))"

text \<open>Lines 135 to 144. The \<^verbatim>\<open>UPDATE\<close> changes the row of the chain, if there is one.\<close>

definition update_db_reminder :: "string \<Rightarrow> db_result \<Rightarrow> ledger \<Rightarrow> event list \<times> ledger" where
  "update_db_reminder cid wr db =
     (case wr of
        Db_ok \<Rightarrow>
          ([Db_mark_reminder cid Db_ok],
           (case db cid of None \<Rightarrow> db | Some row \<Rightarrow> db(cid \<mapsto> (fst row, True))))
      | Db_operational_error \<Rightarrow>
          ([Db_mark_reminder cid Db_operational_error,
            Log_error ''failed to update database with new reminder'',
            Error_inc cid ''database_update_failed''],
           db))"

text \<open>
  Lines 146 to 166. The arguments are built first: the text reads
  \<^verbatim>\<open>plan['height']\<close>, the blocks read \<^verbatim>\<open>plan['name']\<close>. Then the message
  is sent; nothing handles what the send raises.
\<close>

definition notify_slack :: "string \<Rightarrow> jvalue \<Rightarrow> send_result \<Rightarrow> exc option \<times> event list" where
  "notify_slack cid plan snd_res =
     (case py_getitem plan ''height'' of
        Inl e \<Rightarrow> (Some e, [])
      | Inr h \<Rightarrow>
          (case py_getitem plan ''name'' of
             Inl e \<Rightarrow> (Some e, [])
           | Inr n \<Rightarrow>
               (case snd_res of
                  Send_returns \<Rightarrow> (None, [Send_upgrade_notice cid plan])
                | Send_raises \<Rightarrow> (Some WebhookSendError, [Send_upgrade_notice cid plan]))))"

text \<open>
  Lines 168 to 189. The text computes \<^verbatim>\<open>int(plan['height']) - block\<close>, the blocks read
  \<^verbatim>\<open>plan['name']\<close>.
\<close>

definition remind_slack ::
  "string \<Rightarrow> jvalue \<Rightarrow> int \<Rightarrow> send_result \<Rightarrow> exc option \<times> event list" where
  "remind_slack cid plan block snd_res =
     (case plan_height plan of
        Inl e \<Rightarrow> (Some e, [])
      | Inr h \<Rightarrow>
          (case py_getitem plan ''name'' of
             Inl e \<Rightarrow> (Some e, [])
           | Inr n \<Rightarrow>
               (case snd_res of
                  Send_returns \<Rightarrow> (None, [Send_reminder cid plan block])
                | Send_raises \<Rightarrow> (Some WebhookSendError, [Send_reminder cid plan block]))))"

subsection \<open>One iteration of \<^verbatim>\<open>monitor\<close>\<close>

text \<open>
  An iteration ends in one of three ways: the loop goes on, \<^verbatim>\<open>monitor\<close> returns
  (lines 80, 84, 101, 105), or an exception nobody handles leaves \<^verbatim>\<open>monitor\<close>; the
  site says which call raised it (\<open>In_monitor\<close> is the condition of line 93).
\<close>

datatype site =
    In_fetch_upgrade_plan
  | In_monitor
  | In_fetch_block_height
  | In_remind_slack
  | In_notify_slack
  | In_update_db_upgrade

datatype outcome = Looping | Returned | Raised exc site

text \<open>The handlers of lines 77 to 84: the message logged and the label counted.\<close>

fun plan_except :: "exc \<Rightarrow> (string \<times> string) option" where
  "plan_except PlanNotInRequest =
     Some (''request successful, but no plan object in response'', ''plan_not_in_request'')"
| "plan_except (UpgradeRequestFailed t) =
     Some (''upgrade plan request failed'', ''upgrade_request_failed'')"
| "plan_except e = None"

text \<open>The handlers of lines 98 to 105.\<close>

fun block_except :: "exc \<Rightarrow> (string \<times> string) option" where
  "block_except BlockNotInRequest =
     Some (''request successful, but no block object in response'', ''block_not_in_request'')"
| "block_except (BlockRequestFailed t) =
     Some (''block request failed'', ''block_request_failed'')"
| "block_except e = None"

text \<open>Lines 94 to 113: the ledger holds \<open>existing\<close>, whose height is not below the plan's.\<close>

definition monitor_known ::
  "config \<Rightarrow> string \<Rightarrow> jvalue \<Rightarrow> int \<times> bool \<Rightarrow> tick_env \<Rightarrow> ledger
     \<Rightarrow> outcome \<times> event list \<times> ledger" where
  "monitor_known cfg cid plan existing env db =
     (case fetch_block_height (block_response env) of
        Inl e \<Rightarrow>
          (case block_except e of
             Some (msg, label) \<Rightarrow>
               (Returned, [Fetch_block_height (rpc cfg), Log_error msg, Error_inc cid label], db)
           | None \<Rightarrow> (Raised e In_fetch_block_height, [Fetch_block_height (rpc cfg)], db))
      | Inr current_block \<Rightarrow>
          if \<not> snd existing \<and> fst existing - current_block \<le> reminder_diff_blocks cfg
          then (case remind_slack cid plan current_block (webhook_send env) of
                  (Some e, evs) \<Rightarrow>
                    (Raised e In_remind_slack,
                     [Fetch_block_height (rpc cfg), Log_debug_blocks (reminder_diff_blocks cfg)]
                       @ evs,
                     db)
                | (None, evs) \<Rightarrow>
                    (case update_db_reminder cid (db_write env) db of
                       (evs', db') \<Rightarrow>
                         (Looping,
                          [Fetch_block_height (rpc cfg),
                           Log_debug_blocks (reminder_diff_blocks cfg)]
                            @ evs @ evs' @ [Log_debug ''no new upgrade plan''],
                          db')))
          else (Looping, [Fetch_block_height (rpc cfg), Log_debug ''no new upgrade plan''], db))"

text \<open>Lines 115 and 116: the notice, then the ledger write.\<close>

definition monitor_new ::
  "string \<Rightarrow> jvalue \<Rightarrow> tick_env \<Rightarrow> ledger \<Rightarrow> outcome \<times> event list \<times> ledger" where
  "monitor_new cid plan env db =
     (case notify_slack cid plan (webhook_send env) of
        (Some e, evs) \<Rightarrow> (Raised e In_notify_slack, evs, db)
      | (None, evs) \<Rightarrow>
          (case update_db_upgrade cid plan (db_write env) db of
             (Some e, evs', db') \<Rightarrow> (Raised e In_update_db_upgrade, evs @ evs', db')
           | (None, evs', db') \<Rightarrow> (Looping, evs @ evs', db')))"

text \<open>
  Lines 92 and 93. The condition is \<^verbatim>\<open>existing_upgrade and existing_upgrade[1] >= int(plan["height"])\<close>:
  with no row the conversion is not evaluated.
\<close>

definition monitor_reconcile ::
  "config \<Rightarrow> string \<Rightarrow> jvalue \<Rightarrow> tick_env \<Rightarrow> ledger \<Rightarrow> outcome \<times> event list \<times> ledger" where
  "monitor_reconcile cfg cid plan env db =
     (case get_db_upgrade db cid of
        None \<Rightarrow> monitor_new cid plan env db
      | Some existing \<Rightarrow>
          (case plan_height plan of
             Inl e \<Rightarrow> (Raised e In_monitor, [], db)
           | Inr h \<Rightarrow>
               if fst existing \<ge> h then monitor_known cfg cid plan existing env db
               else monitor_new cid plan env db))"

text \<open>Lines 71 to 116, the body of the loop.\<close>

definition monitor_tick ::
  "config \<Rightarrow> string \<Rightarrow> ledger \<Rightarrow> tick_env \<Rightarrow> outcome \<times> event list \<times> ledger" where
  "monitor_tick cfg cid db env =
     (case fetch_upgrade_plan (plan_response env) of
        Inl e \<Rightarrow>
          (case plan_except e of
             Some (msg, label) \<Rightarrow>
               (Returned,
                [Sleep (interval_seconds cfg), Log_debug ''fetching upgrade plans'',
                 Fetch_upgrade_plan (endpoint cfg), Log_error msg, Error_inc cid label],
                db)
           | None \<Rightarrow>
               (Raised e In_fetch_upgrade_plan,
                [Sleep (interval_seconds cfg), Log_debug ''fetching upgrade plans'',
                 Fetch_upgrade_plan (endpoint cfg)],
                db))
      | Inr plan \<Rightarrow>
          if \<not> truthy plan
          then (Looping,
                [Sleep (interval_seconds cfg), Log_debug ''fetching upgrade plans'',
                 Fetch_upgrade_plan (endpoint cfg), Set_last_checked cid,
                 Log_debug ''no current upgrade plan''],
                db)
          else (case monitor_reconcile cfg cid plan env db of
                  (out, evs, db') \<Rightarrow>
                    (out,
                     [Sleep (interval_seconds cfg), Log_debug ''fetching upgrade plans'',
                      Fetch_upgrade_plan (endpoint cfg), Set_last_checked cid, Db_select cid]
                       @ evs,
                     db')))"

subsection \<open>The loop\<close>

text \<open>
  The loop of line 70 has no exit of its own. It is run against a list of answers, one
  \<open>tick_env\<close> per iteration; when the list is used up the loop is still going
  (\<open>Looping\<close>) and the events are those of the iterations made so far.
\<close>

fun monitor_loop ::
  "config \<Rightarrow> string \<Rightarrow> ledger \<Rightarrow> tick_env list \<Rightarrow> outcome \<times> event list \<times> ledger" where
  "monitor_loop cfg cid db [] = (Looping, [], db)"
| "monitor_loop cfg cid db (env # envs) =
     (let r = monitor_tick cfg cid db env in
      if fst r = Looping
      then (let r' = monitor_loop cfg cid (snd (snd r)) envs
            in (fst r', fst (snd r) @ fst (snd r'), snd (snd r')))
      else r)"

text \<open>
  Lines 56 to 116. The set-up of lines 57 to 66 (database connection, metrics, logging) is
  taken to succeed; the first thing on record is the debug line that announces the loop.
\<close>

definition monitor ::
  "config \<Rightarrow> string \<Rightarrow> ledger \<Rightarrow> tick_env list \<Rightarrow> outcome \<times> event list \<times> ledger" where
  "monitor cfg cid db envs =
     (let r = monitor_loop cfg cid db envs
      in (fst r, Log_debug ''starting watcher loop'' # fst (snd r), snd (snd r)))"

section \<open>Vocabulary of the properties\<close>

definition outcome_of :: "outcome \<times> event list \<times> ledger \<Rightarrow> outcome" where
  "outcome_of r = fst r"

definition events_of :: "outcome \<times> event list \<times> ledger \<Rightarrow> event list" where
  "events_of r = fst (snd r)"

definition ledger_of :: "outcome \<times> event list \<times> ledger \<Rightarrow> ledger" where
  "ledger_of r = snd (snd r)"

fun is_notice :: "event \<Rightarrow> bool" where
  "is_notice (Send_upgrade_notice c p) = True"
| "is_notice e = False"

fun is_reminder :: "event \<Rightarrow> bool" where
  "is_reminder (Send_reminder c p b) = True"
| "is_reminder e = False"

fun is_upsert :: "event \<Rightarrow> bool" where
  "is_upsert (Db_upsert c h r) = True"
| "is_upsert e = False"

text \<open>An upsert that committed: a new height is on record.\<close>

fun is_recorded_upsert :: "event \<Rightarrow> bool" where
  "is_recorded_upsert (Db_upsert c h r) = (r = Db_ok)"
| "is_recorded_upsert e = False"



fun is_ledger_write :: "event \<Rightarrow> bool" where
  "is_ledger_write (Db_upsert c h r) = True"
| "is_ledger_write (Db_mark_reminder c r) = True"
| "is_ledger_write e = False"

fun is_error_report :: "event \<Rightarrow> bool" where
  "is_error_report (Log_error m) = True"
| "is_error_report (Error_inc c l) = True"
| "is_error_report e = False"

fun is_sleep :: "event \<Rightarrow> bool" where
  "is_sleep (Sleep n) = True"
| "is_sleep e = False"

fun is_plan_fetch :: "event \<Rightarrow> bool" where
  "is_plan_fetch (Fetch_upgrade_plan u) = True"
| "is_plan_fetch e = False"

text \<open>
  An iteration observes a plan of height \<open>h\<close>: the fetch returns a plan that is not
  empty, whose height converts to \<open>h\<close> and which has a name, as the plans of the
  spec's data model do.
\<close>

definition observes :: "tick_env \<Rightarrow> int \<Rightarrow> bool" where
  "observes env h =
     (case fetch_upgrade_plan (plan_response env) of
        Inl e \<Rightarrow> False
      | Inr plan \<Rightarrow> truthy plan \<and> plan_height plan = Inr h \<and> \<not> isl (py_getitem plan ''name''))"

text \<open>The events up to the first one that satisfies \<open>stop\<close>.\<close>

fun events_until :: "(event \<Rightarrow> bool) \<Rightarrow> event list \<Rightarrow> event list" where
  "events_until stop [] = []"
| "events_until stop (e # es) = (if stop e then [] else e # events_until stop es)"

text \<open>How many sleeps come before the first fetch of the upgrade plan.\<close>

definition sleeps_before_first_fetch :: "event list \<Rightarrow> nat" where
  "sleeps_before_first_fetch evs = length (filter is_sleep (events_until is_plan_fetch evs))"

subsection \<open>Sample inputs\<close>

definition plan_reply :: "string \<Rightarrow> string \<Rightarrow> exc + response" where
  "plan_reply name height =
     Inr \<lparr>status_code = 200, body_text = ''{..}'',
          json = Some (JObj [(''plan'', JObj [(''name'', JStr name), (''height'', JStr height)])])\<rparr>"

definition status_reply :: "string \<Rightarrow> exc + response" where
  "status_reply height =
     Inr \<lparr>status_code = 200, body_text = ''{..}'',
          json = Some (JObj [(''result'',
                   JObj [(''sync_info'', JObj [(''latest_block_height'', JStr height)])])])\<rparr>"

definition sample_config :: config where
  "sample_config =
     \<lparr>interval_seconds = 60, endpoint = ''http://rest'', rpc = ''http://rpc'',
      reminder_diff_blocks = 100\<rparr>"

definition sample_env :: "string \<Rightarrow> string \<Rightarrow> send_result \<Rightarrow> db_result \<Rightarrow> tick_env" where
  "sample_env plan_h block_h snd_res wr =
     \<lparr>plan_response = plan_reply ''v2'' plan_h, block_response = status_reply block_h,
      webhook_send = snd_res, db_write = wr\<rparr>"




definition sample_ledger :: "int \<Rightarrow> bool \<Rightarrow> ledger" where
  "sample_ledger h reminded = [''cosmoshub-4'' \<mapsto> (h, reminded)]"


section \<open>Facts about the sample inputs\<close>

lemmas int_of_str_eval =
  int_of_str_def strip_def is_space_def unsigned_literal_def digit_val_def

lemmas sample_defs =
  sample_env_def plan_reply_def status_reply_def sample_config_def sample_ledger_def

lemma int_of_str_5000: "int_of_str ''5000'' = Some 5000"
  by (simp add: int_of_str_eval)

lemma int_of_str_9000: "int_of_str ''9000'' = Some 9000"
  by (simp add: int_of_str_eval)

lemma observes_sample:
  "int_of_str ph = Some h \<Longrightarrow> observes (sample_env ph bh sr wr) h"
  by (simp add: observes_def sample_defs fetch_upgrade_plan_def plan_height_def)

lemma block_height_sample:
  "int_of_str bh = Some b \<Longrightarrow>
     fetch_block_height (block_response (sample_env ph bh sr wr)) = Inr b"
  by (simp add: sample_defs fetch_block_height_def)

lemma get_sample_ledger:
  "get_db_upgrade (sample_ledger h r) ''cosmoshub-4'' = Some (h, r)"
  by (simp add: get_db_upgrade_def sample_ledger_def)

section \<open>The methods, one by one\<close>

lemma observesD:
  assumes "observes env h"
  obtains plan hv nv where "fetch_upgrade_plan (plan_response env) = Inr plan"
    and "truthy plan" and "plan_height plan = Inr h"
    and "py_getitem plan ''height'' = Inr hv" and "py_getitem plan ''name'' = Inr nv"
proof -
  from assms obtain plan where p: "fetch_upgrade_plan (plan_response env) = Inr plan"
    and t: "truthy plan" and h: "plan_height plan = Inr h"
    and n: "\<not> isl (py_getitem plan ''name'')"
    by (auto simp: observes_def split: sum.splits)
  from h obtain hv where hv: "py_getitem plan ''height'' = Inr hv"
    by (auto simp: plan_height_def split: sum.splits)
  from n obtain nv where nv: "py_getitem plan ''name'' = Inr nv"
    by (cases "py_getitem plan ''name''") auto
  from p t h hv nv that show thesis by blast
qed

lemma update_db_reminder_events:
  assumes "update_db_reminder cid wr db = (evs, db')"
  shows "\<not> list_ex is_notice evs \<and> \<not> list_ex is_reminder evs \<and> \<not> list_ex is_upsert evs
    \<and> \<not> list_ex is_recorded_upsert evs"
  using assms by (auto simp: update_db_reminder_def split: db_result.splits)

lemma remind_slack_events:
  assumes "remind_slack cid plan cur sr = (r, evs)"
  shows "\<not> list_ex is_notice evs \<and> \<not> list_ex is_upsert evs
    \<and> \<not> list_ex is_recorded_upsert evs \<and> \<not> list_ex is_ledger_write evs
    \<and> \<not> list_ex is_error_report evs"
  using assms by (auto simp: remind_slack_def split: sum.splits send_result.splits)

lemma notify_slack_no_reminder:
  assumes "notify_slack cid plan sr = (r, evs)"
  shows "\<not> list_ex is_reminder evs \<and> \<not> list_ex is_error_report evs
    \<and> \<not> list_ex is_ledger_write evs"
  using assms by (auto simp: notify_slack_def split: sum.splits send_result.splits)

lemma update_db_upgrade_no_alert:
  assumes "update_db_upgrade cid plan wr db = (r, evs, db')"
  shows "\<not> list_ex is_reminder evs \<and> \<not> list_ex is_notice evs"
  using assms by (auto simp: update_db_upgrade_def split: sum.splits db_result.splits)


section \<open>The two branches of the reconciliation\<close>

subsection \<open>A new upgrade\<close>

lemma monitor_new_observed:
  assumes "plan_height plan = Inr h" and "py_getitem plan ''height'' = Inr hv"
    and "py_getitem plan ''name'' = Inr nv"
  shows "monitor_new cid plan env db =
     (case webhook_send env of
        Send_raises \<Rightarrow>
          (Raised WebhookSendError In_notify_slack, [Send_upgrade_notice cid plan], db)
      | Send_returns \<Rightarrow>
          (case db_write env of
             Db_ok \<Rightarrow>
               (Looping, [Send_upgrade_notice cid plan, Db_upsert cid h Db_ok],
                db(cid \<mapsto> (h, False)))
           | Db_operational_error \<Rightarrow>
               (Looping,
                [Send_upgrade_notice cid plan, Db_upsert cid h Db_operational_error,
                 Log_error ''failed to update database with new upgrade'',
                 Error_inc cid ''database_update_failed''],
                db)))"
  using assms
  by (simp add: monitor_new_def notify_slack_def update_db_upgrade_def
      split: send_result.split db_result.split)

lemma monitor_new_notice:
  assumes "plan_height plan = Inr h" and "py_getitem plan ''height'' = Inr hv"
    and "py_getitem plan ''name'' = Inr nv"
  shows "list_ex is_notice (events_of (monitor_new cid plan env db))"
  by (simp add: monitor_new_observed [OF assms] events_of_def
      split: send_result.split db_result.split)

lemma monitor_new_no_reminder:
  "\<not> list_ex is_reminder (events_of (monitor_new cid plan env db))"
  by (auto simp: monitor_new_def events_of_def split: prod.split option.split
      dest: notify_slack_no_reminder update_db_upgrade_no_alert)


lemma monitor_new_send_raises:
  assumes "webhook_send env = Send_raises"
    and "list_ex is_notice (events_of (monitor_new cid plan env db))"
  shows "monitor_new cid plan env db =
     (Raised WebhookSendError In_notify_slack, [Send_upgrade_notice cid plan], db)"
  using assms
  by (auto simp: monitor_new_def events_of_def notify_slack_def split: sum.splits)


subsection \<open>A known upgrade\<close>

lemma monitor_known_observed:
  assumes "plan_height plan = Inr h" and "py_getitem plan ''name'' = Inr nv"
    and "fetch_block_height (block_response env) = Inr cur"
  shows "monitor_known cfg cid plan (rh, r) env db =
     (if \<not> r \<and> rh - cur \<le> reminder_diff_blocks cfg
      then (case webhook_send env of
              Send_raises \<Rightarrow>
                (Raised WebhookSendError In_remind_slack,
                 [Fetch_block_height (rpc cfg), Log_debug_blocks (reminder_diff_blocks cfg),
                  Send_reminder cid plan cur],
                 db)
            | Send_returns \<Rightarrow>
                (Looping,
                 [Fetch_block_height (rpc cfg), Log_debug_blocks (reminder_diff_blocks cfg),
                  Send_reminder cid plan cur]
                   @ fst (update_db_reminder cid (db_write env) db)
                   @ [Log_debug ''no new upgrade plan''],
                 snd (update_db_reminder cid (db_write env) db)))
      else (Looping, [Fetch_block_height (rpc cfg), Log_debug ''no new upgrade plan''], db))"
  using assms
  by (simp add: monitor_known_def remind_slack_def
      split: send_result.split prod.split)

text \<open>The branch sends no notice and makes no upsert, whatever the answers.\<close>

lemma monitor_known_no_notice:
  "\<not> list_ex is_notice (events_of (monitor_known cfg cid plan ex env db))
   \<and> \<not> list_ex is_upsert (events_of (monitor_known cfg cid plan ex env db))
   \<and> \<not> list_ex is_recorded_upsert (events_of (monitor_known cfg cid plan ex env db))"
  by (auto simp: monitor_known_def events_of_def
      split: sum.split option.split prod.split
      dest: remind_slack_events update_db_reminder_events)




lemma monitor_known_send_raises:
  assumes "webhook_send env = Send_raises"
    and "list_ex is_reminder (events_of (monitor_known cfg cid plan ex env db))"
  shows "outcome_of (monitor_known cfg cid plan ex env db) = Raised WebhookSendError In_remind_slack
    \<and> \<not> list_ex is_ledger_write (events_of (monitor_known cfg cid plan ex env db))
    \<and> \<not> list_ex is_error_report (events_of (monitor_known cfg cid plan ex env db))
    \<and> ledger_of (monitor_known cfg cid plan ex env db) = db"
  using assms
  by (auto simp: monitor_known_def events_of_def outcome_of_def ledger_of_def remind_slack_def
      split: sum.splits option.splits prod.splits if_splits)

section \<open>Lists of events\<close>





section \<open>One iteration\<close>

lemma monitor_reconcile_none:
  assumes "get_db_upgrade db cid = None"
  shows "monitor_reconcile cfg cid plan env db = monitor_new cid plan env db"
  using assms by (simp add: monitor_reconcile_def)

lemma monitor_reconcile_some:
  assumes "get_db_upgrade db cid = Some (rh, r)" and "plan_height plan = Inr h"
  shows "monitor_reconcile cfg cid plan env db =
     (if h \<le> rh then monitor_known cfg cid plan (rh, r) env db
      else monitor_new cid plan env db)"
  using assms by (simp add: monitor_reconcile_def)

lemma monitor_reconcile_cases:
  "monitor_reconcile cfg cid plan env db = monitor_new cid plan env db
   \<or> (\<exists>ex. monitor_reconcile cfg cid plan env db = monitor_known cfg cid plan ex env db)
   \<or> (\<exists>e. monitor_reconcile cfg cid plan env db = (Raised e In_monitor, [], db))"
  by (auto simp: monitor_reconcile_def split: option.split sum.split)

lemma monitor_tick_plan:
  assumes "fetch_upgrade_plan (plan_response env) = Inr plan" and "truthy plan"
  shows "monitor_tick cfg cid db env =
     (outcome_of (monitor_reconcile cfg cid plan env db),
      [Sleep (interval_seconds cfg), Log_debug ''fetching upgrade plans'',
       Fetch_upgrade_plan (endpoint cfg), Set_last_checked cid, Db_select cid]
        @ events_of (monitor_reconcile cfg cid plan env db),
      ledger_of (monitor_reconcile cfg cid plan env db))"
  using assms
  by (simp add: monitor_tick_def outcome_of_def events_of_def ledger_of_def split: prod.split)

text \<open>An iteration that finds no plan to act on sends nothing and writes nothing.\<close>

lemma monitor_tick_idle:
  assumes "\<forall>plan. fetch_upgrade_plan (plan_response env) = Inr plan \<longrightarrow> \<not> truthy plan"
  shows "\<not> list_ex is_notice (events_of (monitor_tick cfg cid db env))
    \<and> \<not> list_ex is_reminder (events_of (monitor_tick cfg cid db env))
    \<and> \<not> list_ex is_recorded_upsert (events_of (monitor_tick cfg cid db env))
    \<and> ledger_of (monitor_tick cfg cid db env) = db"
  using assms
  by (auto simp: monitor_tick_def events_of_def ledger_of_def split: sum.split option.split)

text \<open>Every iteration opens with the sleep, the debug line and the fetch of the plan.\<close>

lemma tick_events_start:
  "\<exists>rest. events_of (monitor_tick cfg cid db env) =
     [Sleep (interval_seconds cfg), Log_debug ''fetching upgrade plans'',
      Fetch_upgrade_plan (endpoint cfg)] @ rest"
  by (simp add: monitor_tick_def events_of_def split: sum.split option.split prod.split)





section \<open>The loop\<close>


lemma monitor_loop_stops:
  assumes "outcome_of (monitor_tick cfg cid db env) \<noteq> Looping"
  shows "monitor_loop cfg cid db (env # envs) = monitor_tick cfg cid db env"
  using assms by (simp add: outcome_of_def Let_def)

lemma loop_events_start:
  "\<exists>rest. events_of (monitor_loop cfg cid db (env # envs)) =
     [Sleep (interval_seconds cfg), Log_debug ''fetching upgrade plans'',
      Fetch_upgrade_plan (endpoint cfg)] @ rest"
proof -
  obtain rest where r: "events_of (monitor_tick cfg cid db env) =
     [Sleep (interval_seconds cfg), Log_debug ''fetching upgrade plans'',
      Fetch_upgrade_plan (endpoint cfg)] @ rest"
    using tick_events_start by blast
  show ?thesis
  proof (cases "fst (monitor_tick cfg cid db env) = Looping")
    case True
    then show ?thesis using r by (simp add: events_of_def Let_def)
  next
    case False
    then show ?thesis using r by (simp add: events_of_def Let_def)
  qed
qed




section \<open>When the upgrade notice is sent\<close>

text \<open>
  Claim C1, as the code has it. On an iteration that observes a plan, the upgrade notice
  is sent if and only if the ledger has no record for the chain id or the recorded height
  is strictly below the observed one. The condition of line 93 is
  \<^verbatim>\<open>existing_upgrade[1] >= int(plan["height"])\<close>: a recorded height that differs
  from the observed one by being higher sends no notice.
\<close>

theorem C1_notice_iff_absent_or_lower:
  assumes "observes env h"
  shows "list_ex is_notice (events_of (monitor_tick cfg cid db env)) \<longleftrightarrow>
     (case get_db_upgrade db cid of None \<Rightarrow> True | Some existing \<Rightarrow> fst existing < h)"
proof -
  from assms obtain plan hv nv where p: "fetch_upgrade_plan (plan_response env) = Inr plan"
    and t: "truthy plan" and h: "plan_height plan = Inr h"
    and hv: "py_getitem plan ''height'' = Inr hv" and nv: "py_getitem plan ''name'' = Inr nv"
    by (rule observesD)
  have ev: "list_ex is_notice (events_of (monitor_tick cfg cid db env)) \<longleftrightarrow>
      list_ex is_notice (events_of (monitor_reconcile cfg cid plan env db))"
    by (simp add: monitor_tick_plan [OF p t] events_of_def)
  show ?thesis
  proof (cases "get_db_upgrade db cid")
    case None
    then show ?thesis
      using ev monitor_new_notice [OF h hv nv] by (simp add: monitor_reconcile_none)
  next
    case (Some existing)
    then have s: "get_db_upgrade db cid = Some (fst existing, snd existing)" by simp
    show ?thesis
    proof (cases "h \<le> fst existing")
      case True
      then show ?thesis
        using ev Some monitor_known_no_notice [of cfg cid plan "(fst existing, snd existing)" env db]
        by (simp add: monitor_reconcile_some [OF s h])
    next
      case False
      then show ?thesis
        using ev Some monitor_new_notice [OF h hv nv]
        by (simp add: monitor_reconcile_some [OF s h])
    qed
  qed
qed

text \<open>
  The theorem at work: no record, a record with a lower height, a record with the same
  height.
\<close>

theorem C1_notice_iff_absent_or_lower_witness:
  "observes (sample_env ''5000'' ''4950'' Send_returns Db_ok) 5000
   \<and> observes (sample_env ''9000'' ''4950'' Send_returns Db_ok) 9000
   \<and> list_ex is_notice (events_of (monitor_tick sample_config ''cosmoshub-4'' Map.empty
         (sample_env ''5000'' ''4950'' Send_returns Db_ok)))
   \<and> list_ex is_notice (events_of (monitor_tick sample_config ''cosmoshub-4''
         (sample_ledger 5000 True) (sample_env ''9000'' ''4950'' Send_returns Db_ok)))
   \<and> \<not> list_ex is_notice (events_of (monitor_tick sample_config ''cosmoshub-4''
         (sample_ledger 5000 False) (sample_env ''5000'' ''4950'' Send_returns Db_ok)))"
proof -
  have a: "observes (sample_env ''5000'' ''4950'' Send_returns Db_ok) 5000"
    by (rule observes_sample) (simp add: int_of_str_eval)
  have b: "observes (sample_env ''9000'' ''4950'' Send_returns Db_ok) 9000"
    by (rule observes_sample) (simp add: int_of_str_eval)
  show ?thesis
    using a b
      C1_notice_iff_absent_or_lower [OF a, of sample_config "''cosmoshub-4''" Map.empty]
      C1_notice_iff_absent_or_lower [OF b, of sample_config "''cosmoshub-4''" "sample_ledger 5000 True"]
      C1_notice_iff_absent_or_lower [OF a, of sample_config "''cosmoshub-4''" "sample_ledger 5000 False"]
    by (simp add: get_sample_ledger) (simp add: get_db_upgrade_def)
qed

text \<open>
  Claim C1 as stated fails: the ledger records height 5000, the plan observed has height
  4000, the two differ, and no notice is sent.
\<close>

theorem C1_lower_height_sends_no_notice:
  "observes (sample_env ''4000'' ''3000'' Send_returns Db_ok) 4000
   \<and> get_db_upgrade (sample_ledger 5000 False) ''cosmoshub-4'' = Some (5000, False)
   \<and> (5000 :: int) \<noteq> 4000
   \<and> \<not> list_ex is_notice (events_of (monitor_tick sample_config ''cosmoshub-4''
         (sample_ledger 5000 False) (sample_env ''4000'' ''3000'' Send_returns Db_ok)))"
  by (simp add: observes_def sample_defs fetch_upgrade_plan_def plan_height_def
      int_of_str_eval get_db_upgrade_def events_of_def monitor_tick_def monitor_reconcile_def
      monitor_known_def fetch_block_height_def)

section \<open>No second notice for the same height\<close>




section \<open>One reminder for a tracked height\<close>




section \<open>The reminder threshold\<close>

text \<open>
  Claim C4. On an iteration where the ledger record has \<open>reminderSent = false\<close> and a
  height not below the observed one, and the block height has been fetched, the reminder
  is sent if and only if the recorded height minus the current height is at most the
  configured threshold: at the threshold and below it the reminder is sent, above it not.
\<close>

theorem C4_reminder_threshold:
  assumes "get_db_upgrade db cid = Some (rh, False)" and "observes env h" and "h \<le> rh"
    and "fetch_block_height (block_response env) = Inr cur"
  shows "list_ex is_reminder (events_of (monitor_tick cfg cid db env)) \<longleftrightarrow>
     rh - cur \<le> reminder_diff_blocks cfg"
proof -
  from assms(2) obtain plan hv nv where p: "fetch_upgrade_plan (plan_response env) = Inr plan"
    and t: "truthy plan" and h: "plan_height plan = Inr h"
    and nv: "py_getitem plan ''name'' = Inr nv"
    by (rule observesD)
  have "list_ex is_reminder (events_of (monitor_tick cfg cid db env)) \<longleftrightarrow>
      list_ex is_reminder (events_of (monitor_known cfg cid plan (rh, False) env db))"
    using assms(3)
    by (simp add: monitor_tick_plan [OF p t] monitor_reconcile_some [OF assms(1) h] events_of_def)
  also have "\<dots> \<longleftrightarrow> rh - cur \<le> reminder_diff_blocks cfg"
    by (simp add: monitor_known_observed [OF h nv assms(4)] events_of_def
        split: send_result.split)
  finally show ?thesis .
qed

text \<open>
  The theorem at work with threshold 100 and recorded height 5000: at block 4900 (exactly
  the threshold) and at 4950 the reminder is sent, at 4899 it is not.
\<close>

theorem C4_reminder_threshold_witness:
  "get_db_upgrade (sample_ledger 5000 False) ''cosmoshub-4'' = Some (5000, False)
   \<and> observes (sample_env ''5000'' ''4900'' Send_returns Db_ok) 5000
   \<and> reminder_diff_blocks sample_config = 100
   \<and> list_ex is_reminder (events_of (monitor_tick sample_config ''cosmoshub-4''
         (sample_ledger 5000 False) (sample_env ''5000'' ''4900'' Send_returns Db_ok)))
   \<and> list_ex is_reminder (events_of (monitor_tick sample_config ''cosmoshub-4''
         (sample_ledger 5000 False) (sample_env ''5000'' ''4950'' Send_returns Db_ok)))
   \<and> \<not> list_ex is_reminder (events_of (monitor_tick sample_config ''cosmoshub-4''
         (sample_ledger 5000 False) (sample_env ''5000'' ''4899'' Send_returns Db_ok)))"
proof -
  have o: "observes (sample_env ''5000'' bh Send_returns Db_ok) 5000" for bh
    by (rule observes_sample) (simp add: int_of_str_eval)
  have b1: "fetch_block_height (block_response (sample_env ''5000'' ''4900'' Send_returns Db_ok)) = Inr 4900"
    by (rule block_height_sample) (simp add: int_of_str_eval)
  have b2: "fetch_block_height (block_response (sample_env ''5000'' ''4950'' Send_returns Db_ok)) = Inr 4950"
    by (rule block_height_sample) (simp add: int_of_str_eval)
  have b3: "fetch_block_height (block_response (sample_env ''5000'' ''4899'' Send_returns Db_ok)) = Inr 4899"
    by (rule block_height_sample) (simp add: int_of_str_eval)
  show ?thesis
    using o
      C4_reminder_threshold [OF get_sample_ledger o _ b1, where cfg = sample_config]
      C4_reminder_threshold [OF get_sample_ledger o _ b2, where cfg = sample_config]
      C4_reminder_threshold [OF get_sample_ledger o _ b3, where cfg = sample_config]
    by (simp add: get_sample_ledger) (simp add: sample_config_def)
qed

section \<open>The ledger write of a new upgrade\<close>

text \<open>
  Claim C5. When \<^verbatim>\<open>update_db_upgrade\<close> records a new upgrade height (the write
  commits), the ledger holds for the chain id the record with that height and
  \<open>reminderSent = false\<close>, in place of whatever record was there before, also one whose
  reminder had been sent; the records of other chain ids are untouched.
\<close>

theorem C5_upsert_resets_reminder:
  assumes "plan_height plan = Inr h"
  shows "update_db_upgrade cid plan Db_ok db =
           (None, [Db_upsert cid h Db_ok], db(cid \<mapsto> (h, False)))"
  using assms by (simp add: update_db_upgrade_def)

text \<open>
  The theorem at work: the record of height 5000 whose reminder was sent gives way to the
  record of height 9000 with the flag false.
\<close>

theorem C5_upsert_resets_reminder_witness:
  "plan_height (JObj [(''name'', JStr ''v3''), (''height'', JStr ''9000'')]) = Inr 9000
   \<and> [''cosmoshub-4'' \<mapsto> (5000 :: int, True)] ''cosmoshub-4'' = Some (5000, True)
   \<and> snd (snd (update_db_upgrade ''cosmoshub-4''
         (JObj [(''name'', JStr ''v3''), (''height'', JStr ''9000'')]) Db_ok
         [''cosmoshub-4'' \<mapsto> (5000, True)])) ''cosmoshub-4'' = Some (9000, False)"
proof -
  have h: "plan_height (JObj [(''name'', JStr ''v3''), (''height'', JStr ''9000'')]) = Inr 9000"
    by (simp add: plan_height_def int_of_str_9000)
  from C5_upsert_resets_reminder [OF h, of "''cosmoshub-4''" "[''cosmoshub-4'' \<mapsto> (5000, True)]"]
  show ?thesis using h by simp
qed

section \<open>A failed plan fetch\<close>



section \<open>The errors of the block height fetch\<close>

text \<open>
  Claim C7, as the code has it. \<^verbatim>\<open>fetch_block_height\<close> raises
  \<^verbatim>\<open>BlockRequestFailed\<close> with the body of the reply whenever the status is not 200,
  so on every status outside 2xx; what \<^verbatim>\<open>requests.get\<close> itself raises on a
  transport failure leaves the function as it is. On a reply of status 200 whose JSON
  object has no \<^verbatim>\<open>result\<close> key it raises \<^verbatim>\<open>BlockNotInRequest\<close>. On a reply
  of status 200 that holds \<^verbatim>\<open>result.sync_info.latest_block_height\<close> with a value
  \<^verbatim>\<open>int\<close> accepts, it returns that integer.
\<close>

theorem C7_fetch_block_height_errors:
  "fetch_block_height (Inl e) = Inl e
   \<and> (status_code req \<noteq> 200 \<longrightarrow>
        fetch_block_height (Inr req) = Inl (BlockRequestFailed (body_text req)))
   \<and> (status_code req = 200 \<and> json req = Some (JObj kvs) \<and> map_of kvs ''result'' = None \<longrightarrow>
        fetch_block_height (Inr req) = Inl BlockNotInRequest)
   \<and> (status_code req = 200 \<and> json req = Some (JObj kvs) \<and> map_of kvs ''result'' = Some res
        \<and> py_getitem res ''sync_info'' = Inr info
        \<and> py_getitem info ''latest_block_height'' = Inr hv \<and> py_int hv = Inr n \<longrightarrow>
        fetch_block_height (Inr req) = Inr n)"
  by (simp add: fetch_block_height_def)

text \<open>
  The theorem at work: a transport failure, status 503, an empty object, a full reply.
\<close>

theorem C7_fetch_block_height_errors_witness:
  "fetch_block_height (Inl RequestException) = Inl RequestException
   \<and> fetch_block_height (Inr \<lparr>status_code = 503, body_text = ''busy'', json = None\<rparr>)
       = Inl (BlockRequestFailed ''busy'')
   \<and> fetch_block_height (Inr \<lparr>status_code = 200, body_text = ''{}'', json = Some (JObj [])\<rparr>)
       = Inl BlockNotInRequest
   \<and> fetch_block_height (status_reply ''5000'') = Inr 5000"
  using C7_fetch_block_height_errors [of RequestException
      "\<lparr>status_code = 503, body_text = ''busy'', json = None\<rparr>"]
    C7_fetch_block_height_errors [of RequestException
      "\<lparr>status_code = 200, body_text = ''{}'', json = Some (JObj [])\<rparr>" "[]"]
    C7_fetch_block_height_errors [of RequestException
      "\<lparr>status_code = 200, body_text = ''{..}'',
          json = Some (JObj [(''result'',
                   JObj [(''sync_info'', JObj [(''latest_block_height'', JStr ''5000'')])])])\<rparr>"
      "[(''result'', JObj [(''sync_info'', JObj [(''latest_block_height'', JStr ''5000'')])])]"
      "JObj [(''sync_info'', JObj [(''latest_block_height'', JStr ''5000'')])]"
      "JObj [(''latest_block_height'', JStr ''5000'')]" "JStr ''5000''" 5000]
  by (simp add: status_reply_def int_of_str_5000)

text \<open>
  Claim C7 as stated fails twice. A reply of status 200 with \<^verbatim>\<open>result\<close> present and
  \<^verbatim>\<open>sync_info\<close> absent raises \<^verbatim>\<open>KeyError\<close>, which is neither of the two
  errors of the claim nor an integer; a transport failure raises the exception of
  \<^verbatim>\<open>requests\<close>, not \<^verbatim>\<open>BlockRequestFailed\<close>.
\<close>

theorem C7_nested_field_absent_or_transport_failure:
  "fetch_block_height
     (Inr \<lparr>status_code = 200, body_text = ''{..}'', json = Some (JObj [(''result'', JObj [])])\<rparr>)
     = Inl (KeyError ''sync_info'')
   \<and> fetch_block_height (Inl RequestException) = Inl RequestException"
  by (simp add: fetch_block_height_def)

section \<open>A send that raises\<close>

text \<open>
  Claim C8, as the code has it. Neither \<^verbatim>\<open>notify_slack\<close> nor
  \<^verbatim>\<open>remind_slack\<close> handles what \<^verbatim>\<open>webhook_client.send\<close> raises, and
  \<^verbatim>\<open>monitor\<close> does not either. On an iteration whose send raises, the exception
  leaves \<^verbatim>\<open>monitor\<close>: the loop makes no further iteration, nothing is logged as an
  error or counted, and the step that would follow the send (the ledger write after a
  notice, the write of the reminder flag after a reminder) is not made, so the ledger is
  as it was.
\<close>

theorem C8_send_failure_terminates:
  assumes "webhook_send env = Send_raises"
    and "list_ex is_notice (events_of (monitor_tick cfg cid db env))
         \<or> list_ex is_reminder (events_of (monitor_tick cfg cid db env))"
  shows "(outcome_of (monitor_tick cfg cid db env) = Raised WebhookSendError In_notify_slack
          \<or> outcome_of (monitor_tick cfg cid db env) = Raised WebhookSendError In_remind_slack)
    \<and> \<not> list_ex is_ledger_write (events_of (monitor_tick cfg cid db env))
    \<and> \<not> list_ex is_error_report (events_of (monitor_tick cfg cid db env))
    \<and> ledger_of (monitor_tick cfg cid db env) = db
    \<and> monitor_loop cfg cid db (env # envs) = monitor_tick cfg cid db env"
proof -
  let ?T = "monitor_tick cfg cid db env"
  from assms(2) obtain plan where p: "fetch_upgrade_plan (plan_response env) = Inr plan"
    and t: "truthy plan"
    using monitor_tick_idle [of env cfg cid db] by blast
  let ?R = "monitor_reconcile cfg cid plan env db"
  note T = monitor_tick_plan [OF p t, of cfg cid db]
  from assms(2) have alert: "list_ex is_notice (events_of ?R) \<or> list_ex is_reminder (events_of ?R)"
    by (simp add: T events_of_def)
  have main: "(outcome_of ?R = Raised WebhookSendError In_notify_slack
          \<or> outcome_of ?R = Raised WebhookSendError In_remind_slack)
    \<and> \<not> list_ex is_ledger_write (events_of ?R)
    \<and> \<not> list_ex is_error_report (events_of ?R)
    \<and> ledger_of ?R = db"
  proof -
    consider (new) "?R = monitor_new cid plan env db"
      | (known) ex where "?R = monitor_known cfg cid plan ex env db"
      | (raised) e where "?R = (Raised e In_monitor, [], db)"
      using monitor_reconcile_cases by blast
    then show ?thesis
    proof cases
      case new
      with alert have "list_ex is_notice (events_of (monitor_new cid plan env db))"
        using monitor_new_no_reminder [of cid plan env db] by simp
      with assms(1) have "monitor_new cid plan env db =
          (Raised WebhookSendError In_notify_slack, [Send_upgrade_notice cid plan], db)"
        by (rule monitor_new_send_raises)
      with new show ?thesis by (simp add: outcome_of_def events_of_def ledger_of_def)
    next
      case known
      with alert have "list_ex is_reminder (events_of (monitor_known cfg cid plan ex env db))"
        using monitor_known_no_notice [of cfg cid plan ex env db] by simp
      with assms(1) show ?thesis unfolding known by (simp add: monitor_known_send_raises)
    next
      case raised
      with alert show ?thesis by (simp add: events_of_def)
    qed
  qed
  have out: "outcome_of ?T = outcome_of ?R" and led: "ledger_of ?T = ledger_of ?R"
    and evs: "events_of ?T = [Sleep (interval_seconds cfg), Log_debug ''fetching upgrade plans'',
       Fetch_upgrade_plan (endpoint cfg), Set_last_checked cid, Db_select cid] @ events_of ?R"
    by (simp_all add: T outcome_of_def ledger_of_def events_of_def)
  from main out have "outcome_of ?T \<noteq> Looping" by auto
  then have "monitor_loop cfg cid db (env # envs) = ?T" by (rule monitor_loop_stops)
  with main show ?thesis unfolding out led evs by simp
qed

text \<open>
  The theorem at work: a notice whose send raises, and a reminder whose send raises.
\<close>

theorem C8_send_failure_terminates_witness:
  "webhook_send (sample_env ''5000'' ''4950'' Send_raises Db_ok) = Send_raises
   \<and> list_ex is_notice (events_of (monitor_tick sample_config ''cosmoshub-4'' Map.empty
         (sample_env ''5000'' ''4950'' Send_raises Db_ok)))
   \<and> outcome_of (monitor_tick sample_config ''cosmoshub-4'' Map.empty
         (sample_env ''5000'' ''4950'' Send_raises Db_ok))
       = Raised WebhookSendError In_notify_slack
   \<and> ledger_of (monitor_tick sample_config ''cosmoshub-4'' Map.empty
         (sample_env ''5000'' ''4950'' Send_raises Db_ok)) = Map.empty
   \<and> list_ex is_reminder (events_of (monitor_tick sample_config ''cosmoshub-4''
         (sample_ledger 5000 False) (sample_env ''5000'' ''4950'' Send_raises Db_ok)))
   \<and> outcome_of (monitor_tick sample_config ''cosmoshub-4''
         (sample_ledger 5000 False) (sample_env ''5000'' ''4950'' Send_raises Db_ok))
       = Raised WebhookSendError In_remind_slack
   \<and> ledger_of (monitor_tick sample_config ''cosmoshub-4''
         (sample_ledger 5000 False) (sample_env ''5000'' ''4950'' Send_raises Db_ok))
       = sample_ledger 5000 False"
proof -
  let ?env = "sample_env ''5000'' ''4950'' Send_raises Db_ok"
  have w: "webhook_send ?env = Send_raises" by (simp add: sample_env_def)
  have n: "list_ex is_notice (events_of (monitor_tick sample_config ''cosmoshub-4'' Map.empty ?env))"
    by (simp add: events_of_def sample_defs monitor_tick_def fetch_upgrade_plan_def
        monitor_reconcile_def get_db_upgrade_def monitor_new_def notify_slack_def)
  have r: "list_ex is_reminder (events_of (monitor_tick sample_config ''cosmoshub-4''
         (sample_ledger 5000 False) ?env))"
    by (simp add: events_of_def sample_defs monitor_tick_def fetch_upgrade_plan_def
        monitor_reconcile_def get_db_upgrade_def monitor_known_def remind_slack_def
        plan_height_def int_of_str_eval fetch_block_height_def)
  have o1: "outcome_of (monitor_tick sample_config ''cosmoshub-4'' Map.empty ?env)
      \<noteq> Raised WebhookSendError In_remind_slack"
    by (simp add: outcome_of_def sample_defs monitor_tick_def fetch_upgrade_plan_def
        monitor_reconcile_def get_db_upgrade_def monitor_new_def notify_slack_def)
  have o2: "outcome_of (monitor_tick sample_config ''cosmoshub-4'' (sample_ledger 5000 False) ?env)
      \<noteq> Raised WebhookSendError In_notify_slack"
    by (simp add: outcome_of_def sample_defs monitor_tick_def fetch_upgrade_plan_def
        monitor_reconcile_def get_db_upgrade_def monitor_known_def remind_slack_def
        plan_height_def int_of_str_eval fetch_block_height_def)
  show ?thesis
    using w n r o1 o2
      C8_send_failure_terminates [OF w disjI1 [OF n], where envs = "[]"]
      C8_send_failure_terminates [OF w disjI2 [OF r], where envs = "[]"]
    by simp
qed

text \<open>
  Claim C8 as stated fails: the send of the notice raises, the run ends there with the
  exception, the upsert is not made, and the second set of answers is never used.
\<close>

theorem C8_send_failure_skips_ledger_write:
  "webhook_send (sample_env ''5000'' ''4950'' Send_raises Db_ok) = Send_raises
   \<and> monitor_loop sample_config ''cosmoshub-4'' Map.empty
        [sample_env ''5000'' ''4950'' Send_raises Db_ok,
         sample_env ''5000'' ''4950'' Send_returns Db_ok]
      = (Raised WebhookSendError In_notify_slack,
         [Sleep 60, Log_debug ''fetching upgrade plans'', Fetch_upgrade_plan ''http://rest'',
          Set_last_checked ''cosmoshub-4'', Db_select ''cosmoshub-4'',
          Send_upgrade_notice ''cosmoshub-4''
            (JObj [(''name'', JStr ''v2''), (''height'', JStr ''5000'')])],
         Map.empty)"
  by (simp add: sample_defs monitor_tick_def fetch_upgrade_plan_def
        monitor_reconcile_def get_db_upgrade_def monitor_new_def notify_slack_def)

section \<open>Sleep and fetch\<close>

text \<open>
  Claim C9, as the code has it. Every iteration starts with the sleep of the configured
  interval (line 71) and fetches the plan after it (line 74). After \<^verbatim>\<open>monitor\<close> starts,
  exactly one sleep precedes the first fetch of the plan.
\<close>

theorem C9_sleep_precedes_fetch:
  "take 3 (events_of (monitor_tick cfg cid db env)) =
     [Sleep (interval_seconds cfg), Log_debug ''fetching upgrade plans'',
      Fetch_upgrade_plan (endpoint cfg)]
   \<and> take 4 (events_of (monitor cfg cid db (env # envs))) =
     [Log_debug ''starting watcher loop'', Sleep (interval_seconds cfg),
      Log_debug ''fetching upgrade plans'', Fetch_upgrade_plan (endpoint cfg)]
   \<and> sleeps_before_first_fetch (events_of (monitor cfg cid db (env # envs))) = 1"
proof -
  obtain r1 where r1: "events_of (monitor_tick cfg cid db env) =
     [Sleep (interval_seconds cfg), Log_debug ''fetching upgrade plans'',
      Fetch_upgrade_plan (endpoint cfg)] @ r1"
    using tick_events_start by blast
  obtain r2 where r2: "events_of (monitor_loop cfg cid db (env # envs)) =
     [Sleep (interval_seconds cfg), Log_debug ''fetching upgrade plans'',
      Fetch_upgrade_plan (endpoint cfg)] @ r2"
    using loop_events_start by blast
  have m: "events_of (monitor cfg cid db (env # envs)) =
     Log_debug ''starting watcher loop'' # events_of (monitor_loop cfg cid db (env # envs))"
    by (simp add: monitor_def events_of_def Let_def)
  show ?thesis
    unfolding m r1 r2 by (simp add: sleeps_before_first_fetch_def)
qed

text \<open>
  The theorem at work on the sample configuration, whose interval is 60 seconds.
\<close>

theorem C9_sleep_precedes_fetch_witness:
  "take 4 (events_of (monitor sample_config ''cosmoshub-4'' Map.empty
       [sample_env ''5000'' ''4950'' Send_returns Db_ok])) =
     [Log_debug ''starting watcher loop'', Sleep 60,
      Log_debug ''fetching upgrade plans'', Fetch_upgrade_plan ''http://rest'']"
  using C9_sleep_precedes_fetch [of sample_config "''cosmoshub-4''" Map.empty
      "sample_env ''5000'' ''4950'' Send_returns Db_ok" "[]"]
  by (simp add: sample_config_def)

text \<open>
  Claim C9 as stated fails: in a run that fetches the plan, a sleep comes before the first
  fetch.
\<close>

theorem C9_first_fetch_after_sleep:
  "list_ex is_plan_fetch (events_of (monitor sample_config ''cosmoshub-4'' Map.empty
       [sample_env ''5000'' ''4950'' Send_returns Db_ok]))
   \<and> sleeps_before_first_fetch (events_of (monitor sample_config ''cosmoshub-4'' Map.empty
       [sample_env ''5000'' ''4950'' Send_returns Db_ok])) = 1"
  by (simp add: sleeps_before_first_fetch_def monitor_def events_of_def monitor_tick_def
      sample_env_def plan_reply_def fetch_upgrade_plan_def monitor_reconcile_def
      get_db_upgrade_def monitor_new_def notify_slack_def update_db_upgrade_def
      plan_height_def int_of_str_5000 sample_config_def)

section \<open>A plan whose height cannot be converted\<close>




end
